theory Spec2Isabelle
  imports Complex_Main
begin

section \<open>Event records and the transport (\<open>trackEvent\<close>)\<close>

text \<open>
  The user profile handed to every screen. A field of a JavaScript object may be missing
  (\<open>undefined\<close>), so every field is optional; the profile itself is \<open>null\<close> until the
  identity provider has answered, which is \<open>None\<close> of type \<open>profile option\<close>.
\<close>

record profile =
  displayName :: "string option"
  pictureUrl :: "string option"
  userId :: "string option"

text \<open>The object literal \<open>eventData\<close> of \<open>trackEvent\<close>: five string fields.\<close>

record eventData =
  eventName :: string
  eventTimestamp :: string
  prop1 :: string
  prop2 :: string
  prop3 :: string

text \<open>
  \<open>lineProfile?.f\<close>: optional chaining gives \<open>undefined\<close> on a \<open>null\<close> profile and the
  field otherwise.
\<close>

definition optChain :: "profile option \<Rightarrow> (profile \<Rightarrow> string option) \<Rightarrow> string option" where
  "optChain lp f = (case lp of None \<Rightarrow> None | Some p \<Rightarrow> f p)"

text \<open>
  \<open>v || d\<close> on a string or \<open>undefined\<close>: \<open>undefined\<close> and the empty string are falsy and
  give the default, any other string is kept.
\<close>

definition orElse :: "string option \<Rightarrow> string \<Rightarrow> string" where
  "orElse v d = (case v of None \<Rightarrow> d | Some s \<Rightarrow> if s = [] then d else s)"

text \<open>
  The construction of \<open>eventData\<close>. The clock is an input (\<open>now\<close>, milliseconds since the
  epoch, what \<open>new Date()\<close> reads) and \<open>Date.prototype.toISOString\<close>, a function of the
  JavaScript runtime, is the parameter \<open>toISOString\<close>.
\<close>

definition mkEventData :: "(int \<Rightarrow> string) \<Rightarrow> int \<Rightarrow> string \<Rightarrow> profile option \<Rightarrow> eventData" where
  "mkEventData toISOString now name lineProfile =
     \<lparr>eventName = name,
      eventTimestamp = toISOString now,
      prop1 = orElse (optChain lineProfile displayName) ''Unknown'',
      prop2 = orElse (optChain lineProfile pictureUrl) ''N/A'',
      prop3 = orElse (optChain lineProfile userId) ''Unknown''\<rparr>"

text \<open>
  What \<open>trackEvent\<close> does to the outside: lines on the console and requests handed to
  \<open>fetch\<close>. An exception is a value of type \<open>error\<close>; a computation that may throw returns
  \<open>error + 'a\<close>, with \<open>Inl\<close> the exception.
\<close>

datatype error = TypeError | NetworkError

record request =
  url :: string
  httpMethod :: string
  headers :: "(string \<times> string) list"
  body :: string

datatype logLine = ConsoleLog eventData | ConsoleError error

record io =
  console :: "logLine list"
  fetched :: "request list"

definition console_log :: "eventData \<Rightarrow> io \<Rightarrow> io" where
  "console_log d w = w\<lparr>console := console w @ [ConsoleLog d]\<rparr>"

definition console_error :: "error \<Rightarrow> io \<Rightarrow> io" where
  "console_error e w = w\<lparr>console := console w @ [ConsoleError e]\<rparr>"

definition postRequest :: "string \<Rightarrow> request" where
  "postRequest b =
     \<lparr>url = ''https://icecdp.onrender.com/events'',
      httpMethod = ''POST'',
      headers = [(''Content-Type'', ''application/json'')],
      body = b\<rparr>"

text \<open>
  The body of the \<open>try\<close> block: \<open>JSON.stringify(eventData)\<close> is evaluated first and may
  throw; then \<open>fetch\<close> is called and awaited, and may reject. Both are parameters, so that
  the environment decides every outcome; \<open>fetch\<close> answers with an HTTP status, which the
  code does not read. An exception leaves the block at once.
\<close>

definition tryBlock ::
  "(eventData \<Rightarrow> error + string) \<Rightarrow> (request \<Rightarrow> error + nat) \<Rightarrow> eventData \<Rightarrow> io \<Rightarrow> (error + unit) \<times> io" where
  "tryBlock stringify fetch d w =
     (case stringify d of
        Inl e \<Rightarrow> (Inl e, w)
      | Inr b \<Rightarrow>
          (let w' = w\<lparr>fetched := fetched w @ [postRequest b]\<rparr>
           in case fetch (postRequest b) of
                Inl e \<Rightarrow> (Inl e, w')
              | Inr status \<Rightarrow> (Inr (), w')))"

text \<open>
  \<open>trackEvent\<close>: build the record, log it, run the \<open>try\<close> block, and in the \<open>catch\<close>
  clause log the exception. The first component of the result is how the promise returned
  by the \<open>async\<close> function settles: \<open>Inr ()\<close> fulfilled, \<open>Inl e\<close> rejected with \<open>e\<close>.
\<close>

definition trackEvent ::
  "(int \<Rightarrow> string) \<Rightarrow> (eventData \<Rightarrow> error + string) \<Rightarrow> (request \<Rightarrow> error + nat) \<Rightarrow>
   int \<Rightarrow> string \<Rightarrow> profile option \<Rightarrow> io \<Rightarrow> (error + unit) \<times> io" where
  "trackEvent toISOString stringify fetch now name lineProfile w =
     (let d = mkEventData toISOString now name lineProfile;
          w1 = console_log d w
      in case tryBlock stringify fetch d w1 of
           (Inl e, w2) \<Rightarrow> (Inr (), console_error e w2)
         | (Inr u, w2) \<Rightarrow> (Inr u, w2))"

section \<open>The tracking hook (\<open>useInteractionTracking\<close>)\<close>

text \<open>
  What \<open>handleScroll\<close> reads from \<open>mainRef.current\<close> at a scroll notification. A JavaScript
  number is a binary64 value; it is modelled as the real it denotes.
\<close>

record viewport =
  scrollTop :: real
  scrollHeight :: real
  clientHeight :: real

text \<open>
  One run of the effect creates the closures \<open>handleScroll\<close> and the cleanup function. Both
  capture the \<open>screenName\<close> and \<open>lineProfile\<close> of the render the effect belongs to, and
  \<open>currentRef\<close>, the value \<open>mainRef.current\<close> had when the effect ran (\<open>True\<close>: the viewport
  element, \<open>False\<close>: \<open>null\<close>). \<open>effectId\<close> is the identity of the function object
  \<open>handleScroll\<close>: each run creates a new one.
\<close>

record closure =
  effectId :: nat
  screenName :: string
  lineProfile :: "profile option"
  currentRef :: bool

text \<open>
  What a screen instance does that is visible from outside, in the order in which it is
  done: calls of \<open>trackEvent\<close> (with the time of the call, the event name and the profile
  passed) and the registration and removal of scroll listeners on the viewport element.
\<close>

datatype action =
    TrackEvent int string "profile option"
  | AddEventListener nat
  | RemoveEventListener nat

fun isTrackEvent :: "action \<Rightarrow> bool" where
  "isTrackEvent (TrackEvent t n p) = True"
| "isTrackEvent (AddEventListener i) = False"
| "isTrackEvent (RemoveEventListener i) = False"

text \<open>
  The state of one mounted screen instance: the three refs of the hook
  (\<open>viewStartTime\<close>, \<open>hasTrackedViewDuration\<close>, \<open>hasTrackedScroll\<close>), whether
  \<open>mainRef.current\<close> is the viewport element, the scroll listeners registered on that
  element, the effect run whose cleanup is pending, and the next function identity.
\<close>

record screenInstance =
  viewStartTime :: int
  hasTrackedViewDuration :: bool
  hasTrackedScroll :: bool
  mainRef :: bool
  listeners :: "closure list"
  active :: "closure option"
  nextId :: nat

text \<open>
  The DOM keeps a listener at most once per element and event type, and removes it by
  identity.
\<close>

definition addEventListener :: "closure \<Rightarrow> closure list \<Rightarrow> closure list" where
  "addEventListener c ls = (if c \<in> set ls then ls else ls @ [c])"

definition removeEventListener :: "closure \<Rightarrow> closure list \<Rightarrow> closure list" where
  "removeEventListener c ls = removeAll c ls"

text \<open>The three template literals that name the events of a screen.\<close>

definition viewName :: "string \<Rightarrow> string" where
  "viewName sn = ''view_'' @ sn"

definition scrollName :: "string \<Rightarrow> string" where
  "scrollName sn = ''scroll_depth_over_70%_on_'' @ sn"

definition durationName :: "string \<Rightarrow> string" where
  "durationName sn = ''view_duration_over_5s_on_'' @ sn"

subsection \<open>JavaScript arithmetic\<close>

text \<open>
  An arithmetic operation of JavaScript returns the exact result rounded to the nearest
  binary64 value, ties to even: 53 significant bits. \<open>expo x\<close> is the exponent of a
  positive \<open>x\<close>, the \<open>e\<close> with \<open>2 ^ e \<le> x < 2 ^ (e + 1)\<close>, found by halving or doubling.
\<close>

function expoUp :: "real \<Rightarrow> int" where
  "expoUp x = (if 2 \<le> x then expoUp (x / 2) + 1 else 0)"
  by pat_completeness auto
termination
proof (relation "measure (\<lambda>x. nat \<lceil>x\<rceil>)")
  show "wf (measure (\<lambda>x::real. nat \<lceil>x\<rceil>))" by simp
next
  fix x :: real
  assume h: "2 \<le> x"
  have "\<lceil>x / 2\<rceil> < \<lceil>x\<rceil>"
  proof -
    have "x / 2 \<le> x - 1" using h by simp
    then have "\<lceil>x / 2\<rceil> \<le> \<lceil>x - 1\<rceil>" by (rule ceiling_mono)
    then show ?thesis by simp
  qed
  moreover have "0 < \<lceil>x\<rceil>" using h by (simp add: ceiling_less_iff less_ceiling_iff)
  ultimately show "(x / 2, x) \<in> measure (\<lambda>x. nat \<lceil>x\<rceil>)" by simp
qed

function expoDown :: "real \<Rightarrow> int" where
  "expoDown x = (if 0 < x \<and> x < 1 then expoDown (2 * x) - 1 else 0)"
  by pat_completeness auto
termination
proof (relation "measure (\<lambda>x. nat \<lceil>1 / x\<rceil>)")
  show "wf (measure (\<lambda>x::real. nat \<lceil>1 / x\<rceil>))" by simp
next
  fix x :: real
  assume h: "0 < x \<and> x < 1"
  then have y: "1 < 1 / x" by simp
  have e: "1 / (2 * x) = (1 / x) / 2" by simp
  have "\<lceil>(1 / x) / 2\<rceil> < \<lceil>1 / x\<rceil>"
  proof (cases "2 \<le> 1 / x")
    case True
    then have "(1 / x) / 2 \<le> 1 / x - 1" by simp
    then have "\<lceil>(1 / x) / 2\<rceil> \<le> \<lceil>1 / x - 1\<rceil>" by (rule ceiling_mono)
    then show ?thesis by simp
  next
    case False
    then have "(1 / x) / 2 \<le> 1" by simp
    then have "\<lceil>(1 / x) / 2\<rceil> \<le> 1" by (simp add: ceiling_le_iff)
    moreover have "1 < \<lceil>1 / x\<rceil>" using y h by (simp add: less_ceiling_iff)
    ultimately show ?thesis by linarith
  qed
  moreover have "0 < \<lceil>1 / x\<rceil>" using y h by (simp add: less_ceiling_iff)
  ultimately show "(2 * x, x) \<in> measure (\<lambda>x. nat \<lceil>1 / x\<rceil>)" by (simp add: e)
qed

declare expoUp.simps [simp del] expoDown.simps [simp del]

definition expo :: "real \<Rightarrow> int" where
  "expo x = (if 1 \<le> x then expoUp x else expoDown x)"

definition pow2 :: "int \<Rightarrow> real" where
  "pow2 e = (if 0 \<le> e then 2 ^ nat e else 1 / 2 ^ nat (- e))"

text \<open>The nearest integer, the even one of two that are equally near.\<close>

definition roundEven :: "real \<Rightarrow> int" where
  "roundEven x =
     (let n = \<lfloor>x\<rfloor>; r = x - of_int n
      in if r < 1 / 2 then n else if 1 / 2 < r then n + 1 else if even n then n else n + 1)"

text \<open>
  \<open>fl x\<close> is \<open>x\<close> rounded to 53 significant bits. The exponent is not bounded here, where
  binary64 has subnormal numbers below \<open>2 ^ -1022\<close> and infinity from \<open>2 ^ 1024\<close> on: a
  result that small stays far below 70 and one that large is above 70 either way, so the
  test \<open>scrollPercent > 70\<close>, the only place the result is used, comes out the same.
\<close>

definition fl :: "real \<Rightarrow> real" where
  "fl x = (if x = 0 then 0
           else (let u = pow2 (expo \<bar>x\<bar> - 52) in of_int (roundEven (x / u)) * u))"

definition jsSub :: "real \<Rightarrow> real \<Rightarrow> real" where
  "jsSub x y = fl (x - y)"

definition jsDiv :: "real \<Rightarrow> real \<Rightarrow> real" where
  "jsDiv x y = fl (x / y)"

definition jsMul :: "real \<Rightarrow> real \<Rightarrow> real" where
  "jsMul x y = fl (x * y)"

subsection \<open>The closures of the effect\<close>

text \<open>\<open>(scrollTop / (scrollHeight - clientHeight)) * 100\<close>, each operation rounded.\<close>

definition scrollPercent :: "viewport \<Rightarrow> real" where
  "scrollPercent v = jsMul (jsDiv (scrollTop v) (jsSub (scrollHeight v) (clientHeight v))) 100"

text \<open>\<open>handleScroll\<close> of the effect run \<open>c\<close>, called at time \<open>now\<close> with the element measuring \<open>v\<close>.\<close>

definition handleScroll :: "closure \<Rightarrow> int \<Rightarrow> viewport \<Rightarrow> screenInstance \<Rightarrow> screenInstance \<times> action list" where
  "handleScroll c now v s =
     (if mainRef s \<and> \<not> hasTrackedScroll s then
        if scrollHeight v \<le> clientHeight v then (s, [])
        else if scrollPercent v > 70 then
          (s\<lparr>hasTrackedScroll := True\<rparr>,
           [TrackEvent now (scrollName (screenName c)) (lineProfile c)])
        else (s, [])
      else (s, []))"

text \<open>A scroll notification calls every listener registered on the element, in order.\<close>

fun dispatchScroll :: "closure list \<Rightarrow> int \<Rightarrow> viewport \<Rightarrow> screenInstance \<Rightarrow> screenInstance \<times> action list" where
  "dispatchScroll [] now v s = (s, [])"
| "dispatchScroll (c # cs) now v s =
     (let (s1, a1) = handleScroll c now v s;
          (s2, a2) = dispatchScroll cs now v s1
      in (s2, a1 @ a2))"

text \<open>
  The body of the effect, run at time \<open>now\<close> for a render with props \<open>sn\<close> and \<open>lp\<close>: the
  view event if the profile is truthy, then the listener on \<open>currentRef\<close> if it is not
  \<open>null\<close>.
\<close>

definition effect :: "int \<Rightarrow> string \<Rightarrow> profile option \<Rightarrow> screenInstance \<Rightarrow> screenInstance \<times> action list" where
  "effect now sn lp s =
     (let a1 = (if lp \<noteq> None then [TrackEvent now (viewName sn) lp] else []);
          c = \<lparr>effectId = nextId s, screenName = sn, lineProfile = lp, currentRef = mainRef s\<rparr>;
          (ls, a2) = (if currentRef c
                      then (addEventListener c (listeners s), [AddEventListener (effectId c)])
                      else (listeners s, []))
      in (s\<lparr>listeners := ls, active := Some c, nextId := Suc (nextId s)\<rparr>, a1 @ a2))"

text \<open>
  \<open>(Date.now() - viewStartTime.current) / 1000\<close>. The times are whole milliseconds, and
  the rounded quotient is above 5 exactly when the exact one is (5 is a binary64 value
  and rounding is monotone), so the division is left exact.
\<close>

definition duration :: "int \<Rightarrow> screenInstance \<Rightarrow> real" where
  "duration now s = real_of_int (now - viewStartTime s) / 1000"

text \<open>The function the effect run \<open>c\<close> returns, called at time \<open>now\<close>.\<close>

definition cleanup :: "closure \<Rightarrow> int \<Rightarrow> screenInstance \<Rightarrow> screenInstance \<times> action list" where
  "cleanup c now s =
     (let (s1, a1) = (if currentRef c
                      then (s\<lparr>listeners := removeEventListener c (listeners s)\<rparr>,
                            [RemoveEventListener (effectId c)])
                      else (s, []));
          (s2, a2) = (if \<not> hasTrackedViewDuration s1
                      then (s1\<lparr>hasTrackedViewDuration := True\<rparr>,
                            if duration now s1 > 5
                            then [TrackEvent now (durationName (screenName c)) (lineProfile c)]
                            else [])
                      else (s1, []))
      in (s2, a1 @ a2))"

subsection \<open>The life of a screen instance\<close>

text \<open>
  React runs the hook as follows. At the first render, at time \<open>tRender\<close>, the refs are
  created: \<open>useRef(Date.now())\<close>, \<open>useRef(false)\<close> twice and \<open>useRef(null)\<close>. At commit the
  ref is attached to the element the screen passed it to (\<open>hasElement\<close>; every screen of
  the repository does), and the effect runs, at time \<open>tEffect\<close>.
\<close>

definition mount :: "int \<Rightarrow> int \<Rightarrow> string \<Rightarrow> profile option \<Rightarrow> bool \<Rightarrow> screenInstance \<times> action list" where
  "mount tRender tEffect sn lp hasElement =
     (let s = \<lparr>viewStartTime = tRender, hasTrackedViewDuration = False, hasTrackedScroll = False,
               mainRef = False, listeners = [], active = None, nextId = 0\<rparr>
      in effect tEffect sn lp (s\<lparr>mainRef := hasElement\<rparr>))"

text \<open>
  After that an instance receives scroll notifications, further renders and at last its
  unmount. A later render leaves the refs alone (the argument of \<open>useRef\<close> is only read at
  the first render); if one of the dependencies \<open>[screenName, lineProfile]\<close> differs from
  the previous render's, the pending cleanup runs and then the effect runs again.
  (React compares with \<open>Object.is\<close>; equality of values stands for it here.) At unmount
  React sets \<open>mainRef.current\<close> to \<open>null\<close> and then runs the pending cleanup. Once
  unmounted, an instance does nothing more.
\<close>

datatype event =
    Scroll int viewport
  | Render int string "profile option"
  | Unmount int

fun step :: "screenInstance \<Rightarrow> event \<Rightarrow> screenInstance \<times> action list" where
  "step s (Scroll now v) = dispatchScroll (listeners s) now v s"
| "step s (Render now sn lp) =
     (case active s of
        None \<Rightarrow> (s, [])
      | Some c \<Rightarrow>
          if screenName c = sn \<and> lineProfile c = lp then (s, [])
          else (let (s1, a1) = cleanup c now s;
                    (s2, a2) = effect now sn lp s1
                in (s2, a1 @ a2)))"
| "step s (Unmount now) =
     (case active s of
        None \<Rightarrow> (s, [])
      | Some c \<Rightarrow>
          (let (s1, a1) = cleanup c now (s\<lparr>mainRef := False\<rparr>)
           in (s1\<lparr>active := None\<rparr>, a1)))"

fun run :: "screenInstance \<Rightarrow> event list \<Rightarrow> screenInstance \<times> action list" where
  "run s [] = (s, [])"
| "run s (ev # evs) =
     (let (s1, a1) = step s ev;
          (s2, a2) = run s1 evs
      in (s2, a1 @ a2))"

text \<open>A whole life: the mount, then the events.\<close>

definition lifetime ::
  "int \<Rightarrow> int \<Rightarrow> string \<Rightarrow> profile option \<Rightarrow> bool \<Rightarrow> event list \<Rightarrow> screenInstance \<times> action list" where
  "lifetime tRender tEffect sn lp hasElement evs =
     (let (s0, a0) = mount tRender tEffect sn lp hasElement;
          (s, a) = run s0 evs
      in (s, a0 @ a))"

subsection \<open>Vocabulary of the statements\<close>

text \<open>A sequence of scroll notifications, each with its time and the element's measures.\<close>

definition scrolls :: "(int \<times> viewport) list \<Rightarrow> event list" where
  "scrolls tvs = map (\<lambda>(t, v). Scroll t v) tvs"

text \<open>The calls of \<open>trackEvent\<close> among some actions, and those with a given event name.\<close>

definition trackEvents :: "action list \<Rightarrow> action list" where
  "trackEvents acts = filter isTrackEvent acts"

fun hasName :: "string \<Rightarrow> action \<Rightarrow> bool" where
  "hasName n (TrackEvent t m p) = (m = n)"
| "hasName n (AddEventListener i) = False"
| "hasName n (RemoveEventListener i) = False"

text \<open>
  The scroll-depth events are the calls of \<open>trackEvent\<close> whose name starts with
  \<open>scroll_depth_over_70%_on_\<close> (25 characters).
\<close>

fun scrollDepthEvent :: "action \<Rightarrow> bool" where
  "scrollDepthEvent (TrackEvent t n p) = (take 25 n = ''scroll_depth_over_70%_on_'')"
| "scrollDepthEvent (AddEventListener i) = False"
| "scrollDepthEvent (RemoveEventListener i) = False"

text \<open>An event that is not a scroll notification on an element with overflow.\<close>

fun noOverflow :: "event \<Rightarrow> bool" where
  "noOverflow (Scroll t v) = (scrollHeight v \<le> clientHeight v)"
| "noOverflow (Render t sn lp) = True"
| "noOverflow (Unmount t) = True"

text \<open>
  The events during which the props of a screen stay \<open>sn\<close> and a \<open>null\<close> profile; in
  \<open>stillNull\<close> the instance moreover stays mounted.
\<close>

fun nullProfile :: "string \<Rightarrow> event \<Rightarrow> bool" where
  "nullProfile sn (Scroll t v) = True"
| "nullProfile sn (Render t sn' lp) = (sn' = sn \<and> lp = None)"
| "nullProfile sn (Unmount t) = True"

fun stillNull :: "string \<Rightarrow> event \<Rightarrow> bool" where
  "stillNull sn (Scroll t v) = True"
| "stillNull sn (Render t sn' lp) = (sn' = sn \<and> lp = None)"
| "stillNull sn (Unmount t) = False"

text \<open>
  The pending effect run, if any, belongs to a render with props \<open>sn\<close> and a \<open>null\<close>
  profile; in \<open>mountedNull\<close> there is one.
\<close>

definition nullClosure :: "string \<Rightarrow> screenInstance \<Rightarrow> bool" where
  "nullClosure sn s =
     (case active s of None \<Rightarrow> True | Some c \<Rightarrow> screenName c = sn \<and> lineProfile c = None)"

definition mountedNull :: "string \<Rightarrow> screenInstance \<Rightarrow> bool" where
  "mountedNull sn s =
     (case active s of None \<Rightarrow> False | Some c \<Rightarrow> screenName c = sn \<and> lineProfile c = None)"

text \<open>
  The states a screen instance is in during its life: the listeners on the element are
  the \<open>handleScroll\<close> of the pending effect run, if that run found the element, and nothing
  else; function identities already handed out lie below \<open>nextId\<close>.
\<close>

definition wellFormed :: "screenInstance \<Rightarrow> bool" where
  "wellFormed s =
     (case active s of
        None \<Rightarrow> listeners s = []
      | Some c \<Rightarrow> listeners s = (if currentRef c then [c] else []) \<and>
                  effectId c < nextId s \<and> currentRef c = mainRef s)"

section \<open>Lemmas\<close>

lemma trackEvent_never_rejects:
  "fst (trackEvent toISOString stringify fetch now name lp w) = Inr ()"
  by (simp add: trackEvent_def Let_def split: prod.splits sum.splits)

lemma trackEvent_console:
  "console (snd (trackEvent toISOString stringify fetch now name lp w)) =
     console w @ [ConsoleLog (mkEventData toISOString now name lp)] @
       (case (case stringify (mkEventData toISOString now name lp) of Inl e \<Rightarrow> Inl e | Inr b \<Rightarrow> fetch (postRequest b)) of
          Inl e \<Rightarrow> [ConsoleError e] | Inr u \<Rightarrow> [])"
  by (simp add: trackEvent_def tryBlock_def console_log_def console_error_def Let_def split: prod.splits sum.splits)

lemma handleScroll_reported: "hasTrackedScroll s \<Longrightarrow> handleScroll c now v s = (s, [])"
  by (simp add: handleScroll_def)

lemma handleScroll_no_overflow: "scrollHeight v \<le> clientHeight v \<Longrightarrow> handleScroll c now v s = (s, [])"
  by (simp add: handleScroll_def)

lemma handleScroll_flag_only: "fst (handleScroll c now v s) = s\<lparr>hasTrackedScroll := hasTrackedScroll (fst (handleScroll c now v s))\<rparr>"
  by (simp add: handleScroll_def)

lemma dispatchScroll_no_overflow: "scrollHeight v \<le> clientHeight v \<Longrightarrow> dispatchScroll cs now v s = (s, [])"
  by (induction cs arbitrary: s) (simp_all add: handleScroll_no_overflow)

lemma dispatchScroll_reported: "hasTrackedScroll s \<Longrightarrow> dispatchScroll cs now v s = (s, [])"
  by (induction cs arbitrary: s) (simp_all add: handleScroll_reported)

lemma dispatchScroll_flag_only:
  "fst (dispatchScroll cs now v s) = s\<lparr>hasTrackedScroll := hasTrackedScroll (fst (dispatchScroll cs now v s))\<rparr>"
proof (induction cs arbitrary: s)
  case Nil
  then show ?case by simp
next
  case (Cons c cs)
  obtain s1 a1 where h: "handleScroll c now v s = (s1, a1)" by (cases "handleScroll c now v s")
  obtain s2 a2 where d: "dispatchScroll cs now v s1 = (s2, a2)" by (cases "dispatchScroll cs now v s1")
  from handleScroll_flag_only [of c now v s] h have 1: "s1 = s\<lparr>hasTrackedScroll := hasTrackedScroll s1\<rparr>" by simp
  from Cons.IH [of s1] d have 2: "s2 = s1\<lparr>hasTrackedScroll := hasTrackedScroll s2\<rparr>" by simp
  have "s2 = s\<lparr>hasTrackedScroll := hasTrackedScroll s2\<rparr>"
    by (subst 2, subst 1) simp
  with h d show ?case by simp
qed

lemma cleanup_refs:
  "viewStartTime (fst (cleanup c t s)) = viewStartTime s"
  "hasTrackedScroll (fst (cleanup c t s)) = hasTrackedScroll s"
  "hasTrackedViewDuration (fst (cleanup c t s))"
  "mainRef (fst (cleanup c t s)) = mainRef s"
  "active (fst (cleanup c t s)) = active s"
  "nextId (fst (cleanup c t s)) = nextId s"
  "listeners (fst (cleanup c t s)) = (if currentRef c then removeAll c (listeners s) else listeners s)"
  by (simp_all add: cleanup_def removeEventListener_def Let_def split_def)

lemma effect_refs:
  "viewStartTime (fst (effect t sn lp s)) = viewStartTime s"
  "hasTrackedScroll (fst (effect t sn lp s)) = hasTrackedScroll s"
  "hasTrackedViewDuration (fst (effect t sn lp s)) = hasTrackedViewDuration s"
  "mainRef (fst (effect t sn lp s)) = mainRef s"
  "active (fst (effect t sn lp s)) = Some \<lparr>effectId = nextId s, screenName = sn, lineProfile = lp, currentRef = mainRef s\<rparr>"
  "nextId (fst (effect t sn lp s)) = Suc (nextId s)"
  by (simp_all add: effect_def Let_def split_def)

lemma dispatchScroll_refs:
  "viewStartTime (fst (dispatchScroll cs t v s)) = viewStartTime s"
  "hasTrackedViewDuration (fst (dispatchScroll cs t v s)) = hasTrackedViewDuration s"
  "mainRef (fst (dispatchScroll cs t v s)) = mainRef s"
  "active (fst (dispatchScroll cs t v s)) = active s"
  "nextId (fst (dispatchScroll cs t v s)) = nextId s"
  "listeners (fst (dispatchScroll cs t v s)) = listeners s"
  by (subst dispatchScroll_flag_only, simp)+

lemma handleScroll_mono: "hasTrackedScroll s \<Longrightarrow> hasTrackedScroll (fst (handleScroll c t v s))"
  by (simp add: handleScroll_def)

lemma dispatchScroll_mono: "hasTrackedScroll s \<Longrightarrow> hasTrackedScroll (fst (dispatchScroll cs t v s))"
  by (simp add: dispatchScroll_reported)

lemma step_viewStartTime: "viewStartTime (fst (step s ev)) = viewStartTime s"
  by (cases ev) (simp_all add: dispatchScroll_refs cleanup_refs effect_refs split_def Let_def split: option.splits)

lemma step_scroll_mono: "hasTrackedScroll s \<Longrightarrow> hasTrackedScroll (fst (step s ev))"
  by (cases ev) (simp_all add: dispatchScroll_mono cleanup_refs effect_refs split_def Let_def split: option.splits)

lemma step_duration_mono: "hasTrackedViewDuration s \<Longrightarrow> hasTrackedViewDuration (fst (step s ev))"
  by (cases ev) (simp_all add: dispatchScroll_refs cleanup_refs effect_refs split_def Let_def split: option.splits)

lemma run_viewStartTime: "viewStartTime (fst (run s evs)) = viewStartTime s"
  by (induction evs arbitrary: s) (simp_all add: split_def Let_def step_viewStartTime)

lemma run_scroll_mono: "hasTrackedScroll s \<Longrightarrow> hasTrackedScroll (fst (run s evs))"
  by (induction evs arbitrary: s) (simp_all add: split_def Let_def step_scroll_mono)

lemma run_duration_mono: "hasTrackedViewDuration s \<Longrightarrow> hasTrackedViewDuration (fst (run s evs))"
  by (induction evs arbitrary: s) (simp_all add: split_def Let_def step_duration_mono)

lemma wellFormed_mount: "wellFormed (fst (mount tR tE sn lp el))"
  by (simp add: wellFormed_def mount_def effect_def addEventListener_def Let_def split_def)

lemma wellFormed_step: "wellFormed s \<Longrightarrow> wellFormed (fst (step s ev))"
  by (cases ev)
     (auto simp add: wellFormed_def dispatchScroll_refs cleanup_refs effect_def addEventListener_def split_def Let_def split: option.splits if_splits)

lemma wellFormed_run: "wellFormed s \<Longrightarrow> wellFormed (fst (run s evs))"
  by (induction evs arbitrary: s) (simp_all add: split_def Let_def wellFormed_step)

lemma wellFormed_lifetime: "wellFormed (fst (lifetime tR tE sn lp el evs))"
  by (simp add: lifetime_def split_def Let_def wellFormed_run wellFormed_mount)



lemma mount_state:
  "fst (mount tR tE sn lp el) =
     \<lparr>viewStartTime = tR, hasTrackedViewDuration = False, hasTrackedScroll = False,
      mainRef = el,
      listeners = (if el then [\<lparr>effectId = 0, screenName = sn, lineProfile = lp, currentRef = True\<rparr>] else []),
      active = Some \<lparr>effectId = 0, screenName = sn, lineProfile = lp, currentRef = el\<rparr>,
      nextId = Suc 0\<rparr>"
  by (simp add: mount_def effect_def addEventListener_def Let_def)

lemma mount_actions:
  "snd (mount tR tE sn lp el) =
     (if lp \<noteq> None then [TrackEvent tE (viewName sn) lp] else []) @
     (if el then [AddEventListener 0] else [])"
  by (simp add: mount_def effect_def addEventListener_def Let_def)


lemma handleScroll_count:
  "length (filter scrollDepthEvent (snd (handleScroll c t v s))) =
     (if hasTrackedScroll (fst (handleScroll c t v s)) \<and> \<not> hasTrackedScroll s then 1 else 0)"
  by (simp add: handleScroll_def scrollName_def)

lemma dispatchScroll_count:
  "length (filter scrollDepthEvent (snd (dispatchScroll cs t v s))) =
     (if hasTrackedScroll (fst (dispatchScroll cs t v s)) \<and> \<not> hasTrackedScroll s then 1 else 0)"
proof (induction cs arbitrary: s)
  case Nil
  then show ?case by simp
next
  case (Cons c cs)
  obtain s1 a1 where h: "handleScroll c t v s = (s1, a1)" by (cases "handleScroll c t v s")
  obtain s2 a2 where d: "dispatchScroll cs t v s1 = (s2, a2)" by (cases "dispatchScroll cs t v s1")
  from handleScroll_count [of c t v s] h
  have 1: "length (filter scrollDepthEvent a1) = (if hasTrackedScroll s1 \<and> \<not> hasTrackedScroll s then 1 else 0)"
    by simp
  from Cons.IH [of s1] d
  have 2: "length (filter scrollDepthEvent a2) = (if hasTrackedScroll s2 \<and> \<not> hasTrackedScroll s1 then 1 else 0)"
    by simp
  from handleScroll_mono [of s c t v] h have 3: "hasTrackedScroll s \<Longrightarrow> hasTrackedScroll s1" by simp
  from dispatchScroll_mono [of s1 cs t v] d have 4: "hasTrackedScroll s1 \<Longrightarrow> hasTrackedScroll s2" by simp
  from 1 2 3 4 h d show ?case by auto
qed

lemma cleanup_no_scrollDepth: "filter scrollDepthEvent (snd (cleanup c t s)) = []"
  by (simp add: cleanup_def Let_def split_def durationName_def)

lemma effect_no_scrollDepth: "filter scrollDepthEvent (snd (effect t sn lp s)) = []"
  by (simp add: effect_def Let_def split_def viewName_def)

lemma step_count:
  "length (filter scrollDepthEvent (snd (step s ev))) =
     (if hasTrackedScroll (fst (step s ev)) \<and> \<not> hasTrackedScroll s then 1 else 0)"
proof (cases ev)
  case (Scroll t v)
  then show ?thesis by (simp add: dispatchScroll_count)
next
  case (Render t sn lp)
  then show ?thesis
    by (simp add: split_def Let_def cleanup_no_scrollDepth effect_no_scrollDepth cleanup_refs effect_refs
             split: option.splits)
next
  case (Unmount t)
  then show ?thesis
    by (simp add: split_def Let_def cleanup_no_scrollDepth cleanup_refs split: option.splits)
qed

lemma run_count:
  "length (filter scrollDepthEvent (snd (run s evs))) =
     (if hasTrackedScroll (fst (run s evs)) \<and> \<not> hasTrackedScroll s then 1 else 0)"
proof (induction evs arbitrary: s)
  case Nil
  then show ?case by simp
next
  case (Cons ev evs)
  obtain s1 a1 where h: "step s ev = (s1, a1)" by (cases "step s ev")
  obtain s2 a2 where d: "run s1 evs = (s2, a2)" by (cases "run s1 evs")
  from step_count [of s ev] h
  have 1: "length (filter scrollDepthEvent a1) = (if hasTrackedScroll s1 \<and> \<not> hasTrackedScroll s then 1 else 0)"
    by simp
  from Cons.IH [of s1] d
  have 2: "length (filter scrollDepthEvent a2) = (if hasTrackedScroll s2 \<and> \<not> hasTrackedScroll s1 then 1 else 0)"
    by simp
  from step_scroll_mono [of s ev] h have 3: "hasTrackedScroll s \<Longrightarrow> hasTrackedScroll s1" by simp
  from run_scroll_mono [of s1 evs] d have 4: "hasTrackedScroll s1 \<Longrightarrow> hasTrackedScroll s2" by simp
  from 1 2 3 4 h d show ?case by auto
qed

lemma mount_no_scrollDepth: "filter scrollDepthEvent (snd (mount tR tE sn lp el)) = []"
  by (simp add: mount_actions viewName_def)

lemma lifetime_fst: "fst (lifetime tR tE sn lp el evs) = fst (run (fst (mount tR tE sn lp el)) evs)"
  by (simp add: lifetime_def split_def Let_def)

lemma lifetime_snd:
  "snd (lifetime tR tE sn lp el evs) = snd (mount tR tE sn lp el) @ snd (run (fst (mount tR tE sn lp el)) evs)"
  by (simp add: lifetime_def split_def Let_def)

lemma mount_refs:
  "viewStartTime (fst (mount tR tE sn lp el)) = tR"
  "\<not> hasTrackedScroll (fst (mount tR tE sn lp el))"
  "\<not> hasTrackedViewDuration (fst (mount tR tE sn lp el))"
  by (simp_all add: mount_state)

lemma lifetime_count:
  "length (filter scrollDepthEvent (snd (lifetime tR tE sn lp el evs))) =
     (if hasTrackedScroll (fst (lifetime tR tE sn lp el evs)) then 1 else 0)"
proof -
  obtain s a where r: "run (fst (mount tR tE sn lp el)) evs = (s, a)"
    by (cases "run (fst (mount tR tE sn lp el)) evs")
  from run_count [of "fst (mount tR tE sn lp el)" evs] r
  have "length (filter scrollDepthEvent a) = (if hasTrackedScroll s then 1 else 0)"
    by (simp add: mount_refs)
  with r show ?thesis
    by (simp add: lifetime_fst lifetime_snd mount_no_scrollDepth)
qed

lemma step_noOverflow: "noOverflow ev \<Longrightarrow> hasTrackedScroll (fst (step s ev)) = hasTrackedScroll s"
  by (cases ev) (simp_all add: dispatchScroll_no_overflow cleanup_refs effect_refs split_def Let_def split: option.splits)

lemma run_noOverflow: "\<forall>ev \<in> set evs. noOverflow ev \<Longrightarrow> hasTrackedScroll (fst (run s evs)) = hasTrackedScroll s"
  by (induction evs arbitrary: s) (simp_all add: split_def Let_def step_noOverflow)

lemma durationName_neq_viewName: "durationName sn \<noteq> viewName sn"
proof
  assume "durationName sn = viewName sn"
  then have "length (durationName sn) = length (viewName sn)" by (rule arg_cong)
  then show False by (simp add: durationName_def viewName_def)
qed

lemma scrollName_neq_viewName: "scrollName sn' \<noteq> viewName sn"
  by (simp add: scrollName_def viewName_def)

lemma run_scrolls_flag_only:
  "fst (run s (scrolls tvs)) = s\<lparr>hasTrackedScroll := hasTrackedScroll (fst (run s (scrolls tvs)))\<rparr>"
proof (induction tvs arbitrary: s)
  case Nil
  then show ?case by (simp add: scrolls_def)
next
  case (Cons tv tvs)
  obtain t v where tv: "tv = (t, v)" by (cases tv)
  obtain s1 a1 where h: "dispatchScroll (listeners s) t v s = (s1, a1)"
    by (cases "dispatchScroll (listeners s) t v s")
  obtain s2 a2 where d: "run s1 (scrolls tvs) = (s2, a2)" by (cases "run s1 (scrolls tvs)")
  from dispatchScroll_flag_only [of "listeners s" t v s] h
  have 1: "s1 = s\<lparr>hasTrackedScroll := hasTrackedScroll s1\<rparr>" by simp
  from Cons.IH [of s1] d have 2: "s2 = s1\<lparr>hasTrackedScroll := hasTrackedScroll s2\<rparr>" by simp
  have 3: "s2 = s\<lparr>hasTrackedScroll := hasTrackedScroll s2\<rparr>"
    by (subst 2, subst 1) simp
  have "scrolls (tv # tvs) = Scroll t v # scrolls tvs" by (simp add: scrolls_def tv)
  with h d 3 show ?case by simp
qed

lemma run_scrolls_refs:
  "viewStartTime (fst (run s (scrolls tvs))) = viewStartTime s"
  "hasTrackedViewDuration (fst (run s (scrolls tvs))) = hasTrackedViewDuration s"
  "mainRef (fst (run s (scrolls tvs))) = mainRef s"
  "active (fst (run s (scrolls tvs))) = active s"
  "nextId (fst (run s (scrolls tvs))) = nextId s"
  "listeners (fst (run s (scrolls tvs))) = listeners s"
  by (subst run_scrolls_flag_only, simp)+

lemma cleanup_trackEvents:
  "trackEvents (snd (cleanup c t s)) =
     (if \<not> hasTrackedViewDuration s \<and> duration t s > 5
      then [TrackEvent t (durationName (screenName c)) (lineProfile c)] else [])"
  by (simp add: cleanup_def trackEvents_def duration_def Let_def split_def)

lemma cleanup_actions:
  "snd (cleanup c t s) =
     (if currentRef c then [RemoveEventListener (effectId c)] else []) @ trackEvents (snd (cleanup c t s))"
  by (simp add: cleanup_def trackEvents_def duration_def Let_def split_def)

lemma step_Unmount:
  "active s = Some c \<Longrightarrow>
   step s (Unmount t) =
     ((fst (cleanup c t (s\<lparr>mainRef := False\<rparr>)))\<lparr>active := None\<rparr>,
      snd (cleanup c t (s\<lparr>mainRef := False\<rparr>)))"
  by (simp add: split_def Let_def)

lemma step_Render:
  "active s = Some c \<Longrightarrow> screenName c \<noteq> sn \<or> lineProfile c \<noteq> lp \<Longrightarrow>
   step s (Render t sn lp) =
     (fst (effect t sn lp (fst (cleanup c t s))),
      snd (cleanup c t s) @ snd (effect t sn lp (fst (cleanup c t s))))"
  by (auto simp add: split_def Let_def)

lemma handleScroll_no_view: "filter (hasName (viewName sn)) (snd (handleScroll c t v s)) = []"
  by (simp add: handleScroll_def scrollName_neq_viewName)

lemma dispatchScroll_no_view: "filter (hasName (viewName sn)) (snd (dispatchScroll cs t v s)) = []"
  by (induction cs arbitrary: s) (simp_all add: split_def Let_def handleScroll_no_view)

lemma cleanup_no_view: "screenName c = sn \<Longrightarrow> filter (hasName (viewName sn)) (snd (cleanup c t s)) = []"
  by (simp add: cleanup_def Let_def split_def durationName_neq_viewName)

lemma step_nullProfile:
  "nullClosure sn s \<Longrightarrow> nullProfile sn ev \<Longrightarrow>
   nullClosure sn (fst (step s ev)) \<and> filter (hasName (viewName sn)) (snd (step s ev)) = []"
proof (cases ev)
  case (Scroll t v)
  assume "nullClosure sn s"
  with Scroll show ?thesis
    by (simp add: nullClosure_def dispatchScroll_refs dispatchScroll_no_view)
next
  case (Render t sn' lp')
  assume "nullClosure sn s" and "nullProfile sn ev"
  with Render show ?thesis
    by (auto simp add: nullClosure_def split: option.splits)
next
  case (Unmount t)
  assume "nullClosure sn s"
  with Unmount show ?thesis
    by (auto simp add: nullClosure_def split_def Let_def cleanup_no_view split: option.splits)
qed

lemma run_nullProfile:
  "nullClosure sn s \<Longrightarrow> \<forall>ev \<in> set evs. nullProfile sn ev \<Longrightarrow>
   filter (hasName (viewName sn)) (snd (run s evs)) = []"
proof (induction evs arbitrary: s)
  case Nil
  then show ?case by simp
next
  case (Cons ev evs)
  from Cons.prems have n: "nullProfile sn ev" by simp
  from step_nullProfile [OF Cons.prems(1) n]
  have 1: "nullClosure sn (fst (step s ev))" and 2: "filter (hasName (viewName sn)) (snd (step s ev)) = []"
    by simp_all
  from Cons.prems have "\<forall>ev \<in> set evs. nullProfile sn ev" by simp
  from Cons.IH [OF 1 this] 2 show ?case by (simp add: split_def Let_def del: step.simps)
qed

lemma step_stillNull: "mountedNull sn s \<Longrightarrow> stillNull sn ev \<Longrightarrow> mountedNull sn (fst (step s ev))"
  by (cases ev) (auto simp add: mountedNull_def dispatchScroll_refs split: option.splits)

lemma run_stillNull:
  "mountedNull sn s \<Longrightarrow> \<forall>ev \<in> set evs. stillNull sn ev \<Longrightarrow> mountedNull sn (fst (run s evs))"
proof (induction evs arbitrary: s)
  case Nil
  then show ?case by simp
next
  case (Cons ev evs)
  from Cons.prems have "stillNull sn ev" by simp
  from step_stillNull [OF Cons.prems(1) this] have 1: "mountedNull sn (fst (step s ev))" .
  from Cons.prems have "\<forall>ev \<in> set evs. stillNull sn ev" by simp
  from Cons.IH [OF 1 this] show ?case by (simp add: split_def Let_def del: step.simps)
qed

lemma effect_view:
  "filter (hasName (viewName sn)) (snd (effect t sn lp s)) =
     (if lp \<noteq> None then [TrackEvent t (viewName sn) lp] else [])"
  by (simp add: effect_def Let_def split_def)

lemmas fl_eval =
  fl_def jsSub_def jsDiv_def jsMul_def roundEven_def pow2_def expo_def
  expoUp.simps expoDown.simps Let_def

lemma scrollPercent_examples:
  "\<not> 70 < scrollPercent \<lparr>scrollTop = 10, scrollHeight = 556, clientHeight = 500\<rparr>"
  "scrollPercent \<lparr>scrollTop = 2758454771764429 / 70368744177664,
                   scrollHeight = 556, clientHeight = 500\<rparr> = 70"
  "70 < scrollPercent \<lparr>scrollTop = 50, scrollHeight = 556, clientHeight = 500\<rparr>"
  "70 < scrollPercent \<lparr>scrollTop = 56, scrollHeight = 556, clientHeight = 500\<rparr>"
  "scrollPercent \<lparr>scrollTop = 400, scrollHeight = 1000, clientHeight = 500\<rparr> = 80"
  by (simp_all add: scrollPercent_def fl_eval)

text \<open>
  The first run of the cleanup after a mount and scroll notifications emits the duration
  event if and only if more than five seconds have passed, and the unmount emits what
  that run emits; a cleanup that runs after another one emits nothing.
\<close>

lemma duration_at_first_cleanup:
  "let (s, a) = lifetime tR tE sn lp el (scrolls tvs);
       c = \<lparr>effectId = 0, screenName = sn, lineProfile = lp, currentRef = el\<rparr>;
       (s1, a1) = cleanup c t s;
       (s2, a2) = cleanup c t' s1;
       (s3, a3) = step s (Unmount t)
   in active s = Some c
      \<and> trackEvents a1 =
          (if real_of_int (t - tR) / 1000 > 5
           then [TrackEvent t (''view_duration_over_5s_on_'' @ sn) lp] else [])
      \<and> hasTrackedViewDuration s1
      \<and> trackEvents a2 = []
      \<and> hasTrackedViewDuration s2
      \<and> trackEvents a3 = trackEvents a1
      \<and> hasTrackedViewDuration s3
      \<and> trackEvents (snd (cleanup c' u' (fst (cleanup c'' u'' s')))) = []"
proof -
  let ?s = "fst (lifetime tR tE sn lp el (scrolls tvs))"
  let ?c = "\<lparr>effectId = 0, screenName = sn, lineProfile = lp, currentRef = el\<rparr>"
  have a: "active ?s = Some ?c"
    by (simp add: lifetime_fst run_scrolls_refs mount_state)
  have f: "\<not> hasTrackedViewDuration ?s"
    by (simp add: lifetime_fst run_scrolls_refs mount_refs)
  have v: "viewStartTime ?s = tR"
    by (simp add: lifetime_fst run_scrolls_refs mount_refs)
  have 1: "trackEvents (snd (cleanup ?c t ?s)) =
      (if real_of_int (t - tR) / 1000 > 5
       then [TrackEvent t (''view_duration_over_5s_on_'' @ sn) lp] else [])"
    using f v by (simp add: cleanup_trackEvents duration_def durationName_def)
  have 2: "hasTrackedViewDuration (fst (cleanup ?c t ?s))"
    by (simp add: cleanup_refs)
  have 3: "trackEvents (snd (cleanup ?c t' (fst (cleanup ?c t ?s)))) = []"
    by (simp add: cleanup_trackEvents cleanup_refs)
  have 4: "hasTrackedViewDuration (fst (cleanup ?c t' (fst (cleanup ?c t ?s))))"
    by (simp add: cleanup_refs)
  have u: "step ?s (Unmount t) =
      ((fst (cleanup ?c t (?s\<lparr>mainRef := False\<rparr>)))\<lparr>active := None\<rparr>,
       snd (cleanup ?c t (?s\<lparr>mainRef := False\<rparr>)))"
    using a by (rule step_Unmount)
  have 5: "trackEvents (snd (step ?s (Unmount t))) = trackEvents (snd (cleanup ?c t ?s))"
    unfolding u by (simp add: cleanup_trackEvents duration_def)
  have 6: "hasTrackedViewDuration (fst (step ?s (Unmount t)))"
    unfolding u by (simp add: cleanup_refs)
  have 7: "trackEvents (snd (cleanup c' u' (fst (cleanup c'' u'' s')))) = []"
    by (simp add: cleanup_trackEvents cleanup_refs)
  from a 1 2 3 4 5 6 7 show ?thesis
    by (simp add: split_def Let_def del: step.simps)
qed

lemma view_event_folded:
  "((\<forall>ev \<in> set evs. nullProfile sn ev) \<longrightarrow>
      filter (hasName (viewName sn)) (snd (lifetime tR tE sn None el evs)) = [])
   \<and> ((\<forall>ev \<in> set evs. stillNull sn ev) \<longrightarrow>
      filter (hasName (viewName sn))
        (snd (step (fst (lifetime tR tE sn None el evs)) (Render t sn (Some p)))) =
      [TrackEvent t (viewName sn) (Some p)])"
proof (intro conjI impI)
  assume h: "\<forall>ev \<in> set evs. nullProfile sn ev"
  have "nullClosure sn (fst (mount tR tE sn None el))"
    by (simp add: nullClosure_def mount_state)
  from run_nullProfile [OF this h]
  show "filter (hasName (viewName sn)) (snd (lifetime tR tE sn None el evs)) = []"
    by (simp add: lifetime_snd mount_actions)
next
  assume h: "\<forall>ev \<in> set evs. stillNull sn ev"
  let ?s = "fst (lifetime tR tE sn None el evs)"
  have "mountedNull sn (fst (mount tR tE sn None el))"
    by (simp add: mountedNull_def mount_state)
  from run_stillNull [OF this h] have "mountedNull sn ?s" by (simp add: lifetime_fst)
  then obtain c where act: "active ?s = Some c" and sn: "screenName c = sn" and lp: "lineProfile c = None"
    by (auto simp add: mountedNull_def split: option.splits)
  have r: "step ?s (Render t sn (Some p)) =
     (fst (effect t sn (Some p) (fst (cleanup c t ?s))),
      snd (cleanup c t ?s) @ snd (effect t sn (Some p) (fst (cleanup c t ?s))))"
    by (rule step_Render [OF act]) (simp add: lp)
  show "filter (hasName (viewName sn)) (snd (step ?s (Render t sn (Some p)))) =
      [TrackEvent t (viewName sn) (Some p)]"
    unfolding r by (simp add: cleanup_no_view [OF sn] effect_view)
qed

section \<open>The claims\<close>



text \<open>
  Claim C2 fails on the code. The welcome screen is mounted with a \<open>null\<close> profile at time
  0, as the first screen of every session is; the profile of the identity provider
  arrives at time 100, and the screen is unmounted at time 10000, ten seconds after its
  activation. The run of the cleanup at the profile's arrival evaluates a duration of a
  tenth of a second and sets \<open>hasTrackedViewDuration\<close>, so the unmount emits no
  \<open>view_duration_over_5s_on_welcome\<close> event. The same unmount with no render before it
  emits the event.
\<close>

theorem duration_lost_after_profile_arrival:
  "snd (lifetime 0 1 ''welcome'' None True
          [Render 100 ''welcome''
             (Some \<lparr>displayName = Some ''LINE User'',
                    pictureUrl = Some ''https://placehold.co/100x100/28a745/FFFFFF?text=L'',
                    userId = Some ''U1234567890abcdef1234567890abcdef''\<rparr>),
           Unmount 10000]) =
     [AddEventListener 0, RemoveEventListener 0,
      TrackEvent 100 ''view_welcome''
        (Some \<lparr>displayName = Some ''LINE User'',
               pictureUrl = Some ''https://placehold.co/100x100/28a745/FFFFFF?text=L'',
               userId = Some ''U1234567890abcdef1234567890abcdef''\<rparr>),
      AddEventListener 1, RemoveEventListener 1]
   \<and> hasTrackedViewDuration
        (fst (lifetime 0 1 ''welcome'' None True
          [Render 100 ''welcome''
             (Some \<lparr>displayName = Some ''LINE User'',
                    pictureUrl = Some ''https://placehold.co/100x100/28a745/FFFFFF?text=L'',
                    userId = Some ''U1234567890abcdef1234567890abcdef''\<rparr>)]))
   \<and> snd (lifetime 0 1 ''welcome'' None True [Unmount 10000]) =
     [AddEventListener 0, RemoveEventListener 0,
      TrackEvent 10000 ''view_duration_over_5s_on_welcome'' None]"
  by (simp add: lifetime_def mount_def effect_def cleanup_def addEventListener_def
        removeEventListener_def duration_def viewName_def durationName_def Let_def)

text \<open>
  Claim C3, as amended. A screen instance is mounted while the profile is \<open>null\<close>. As long
  as its props stay the same (scroll notifications, renders with the same screen name and
  a \<open>null\<close> profile, the unmount), it emits no \<open>view_<screenName>\<close> event. If, while it is
  still mounted, a render brings a profile, the effect runs again and the instance emits
  one \<open>view_<screenName>\<close> event, with that profile, at that moment.
\<close>

theorem view_event_waits_for_profile:
  "((\<forall>ev \<in> set evs. nullProfile sn ev) \<longrightarrow>
      filter (hasName (''view_'' @ sn)) (snd (lifetime tR tE sn None el evs)) = [])
   \<and> ((\<forall>ev \<in> set evs. stillNull sn ev) \<longrightarrow>
      filter (hasName (''view_'' @ sn))
        (snd (step (fst (lifetime tR tE sn None el evs)) (Render t sn (Some p)))) =
      [TrackEvent t (''view_'' @ sn) (Some p)])"
  using view_event_folded [of evs sn tR tE el t p] unfolding viewName_def .

text \<open>The statement above at a concrete input.\<close>

theorem view_event_waits_for_profile_witness:
  "filter (hasName ''view_welcome'')
     (snd (lifetime 0 1 ''welcome'' None True
        [Scroll 1000 \<lparr>scrollTop = 400, scrollHeight = 1000, clientHeight = 500\<rparr>,
         Render 2000 ''welcome'' None])) = []
   \<and> filter (hasName ''view_welcome'')
     (snd (step (fst (lifetime 0 1 ''welcome'' None True
        [Scroll 1000 \<lparr>scrollTop = 400, scrollHeight = 1000, clientHeight = 500\<rparr>,
         Render 2000 ''welcome'' None]))
        (Render 3000 ''welcome'' (Some \<lparr>displayName = Some ''LINE User'', pictureUrl = None, userId = None\<rparr>)))) =
     [TrackEvent 3000 ''view_welcome''
        (Some \<lparr>displayName = Some ''LINE User'', pictureUrl = None, userId = None\<rparr>)]"
proof -
  let ?evs = "[Scroll 1000 \<lparr>scrollTop = 400, scrollHeight = 1000, clientHeight = 500\<rparr>,
         Render 2000 ''welcome'' None]"
  have 1: "\<forall>ev \<in> set ?evs. nullProfile ''welcome'' ev" by simp
  have 2: "\<forall>ev \<in> set ?evs. stillNull ''welcome'' ev" by simp
  from view_event_waits_for_profile [of ?evs "''welcome''" 0 1 True 3000
      "\<lparr>displayName = Some ''LINE User'', pictureUrl = None, userId = None\<rparr>"] 1 2
  have "filter (hasName (''view_'' @ ''welcome''))
          (snd (lifetime 0 1 ''welcome'' None True ?evs)) = []
        \<and> filter (hasName (''view_'' @ ''welcome''))
          (snd (step (fst (lifetime 0 1 ''welcome'' None True ?evs))
             (Render 3000 ''welcome''
                (Some \<lparr>displayName = Some ''LINE User'', pictureUrl = None, userId = None\<rparr>)))) =
          [TrackEvent 3000 (''view_'' @ ''welcome'')
             (Some \<lparr>displayName = Some ''LINE User'', pictureUrl = None, userId = None\<rparr>)]"
    by blast
  then show ?thesis by (simp del: step.simps)
qed

text \<open>
  Claim C3 as stated fails: the welcome screen is mounted with a \<open>null\<close> profile at time 0
  and rendered with the profile of the identity provider at time 100; the life of this one
  instance contains a \<open>view_welcome\<close> event.
\<close>

theorem view_after_profile_arrival:
  "filter (hasName ''view_welcome'')
     (snd (lifetime 0 1 ''welcome'' None True
        [Render 100 ''welcome''
           (Some \<lparr>displayName = Some ''LINE User'',
                  pictureUrl = Some ''https://placehold.co/100x100/28a745/FFFFFF?text=L'',
                  userId = Some ''U1234567890abcdef1234567890abcdef''\<rparr>)])) =
   [TrackEvent 100 ''view_welcome''
      (Some \<lparr>displayName = Some ''LINE User'',
             pictureUrl = Some ''https://placehold.co/100x100/28a745/FFFFFF?text=L'',
             userId = Some ''U1234567890abcdef1234567890abcdef''\<rparr>)]"
  by (simp add: lifetime_def mount_def effect_def cleanup_def addEventListener_def
        removeEventListener_def duration_def viewName_def durationName_def Let_def)

text \<open>
  Claim C4. If every scroll notification a screen instance receives in its life finds
  \<open>scrollHeight \<le> clientHeight\<close>, whatever the \<open>scrollTop\<close>, the instance emits no
  scroll-depth event and \<open>hasTrackedScroll\<close> stays false, whatever renders and unmount
  happen in between. In any state at all, such a notification changes nothing and emits
  nothing.
\<close>

theorem no_overflow_no_scroll_depth:
  assumes "\<forall>ev \<in> set evs. noOverflow ev"
  shows "filter scrollDepthEvent (snd (lifetime tR tE sn lp el evs)) = []
         \<and> \<not> hasTrackedScroll (fst (lifetime tR tE sn lp el evs))
         \<and> (\<forall>s t v. scrollHeight v \<le> clientHeight v \<longrightarrow> step s (Scroll t v) = (s, []))"
proof -
  have f: "\<not> hasTrackedScroll (fst (lifetime tR tE sn lp el evs))"
    using run_noOverflow [OF assms, of "fst (mount tR tE sn lp el)"]
    by (simp add: lifetime_fst mount_refs)
  with lifetime_count [of tR tE sn lp el evs]
  have "filter scrollDepthEvent (snd (lifetime tR tE sn lp el evs)) = []" by simp
  with f show ?thesis by (simp add: dispatchScroll_no_overflow)
qed

text \<open>The statement above at a concrete input.\<close>

theorem no_overflow_no_scroll_depth_witness:
  "filter scrollDepthEvent
     (snd (lifetime 0 1 ''otp_screen'' None True
        [Scroll 1000 \<lparr>scrollTop = 0, scrollHeight = 500, clientHeight = 500\<rparr>,
         Scroll 1500 \<lparr>scrollTop = 400, scrollHeight = 300, clientHeight = 500\<rparr>,
         Unmount 2000])) = []"
proof -
  have h: "\<forall>ev \<in> set [Scroll 1000 \<lparr>scrollTop = 0, scrollHeight = 500, clientHeight = 500\<rparr>,
         Scroll 1500 \<lparr>scrollTop = 400, scrollHeight = 300, clientHeight = 500\<rparr>,
         Unmount 2000]. noOverflow ev"
    by simp
  from no_overflow_no_scroll_depth [OF h, of 0 1 "''otp_screen''" None True]
  show ?thesis by simp
qed

text \<open>
  Claim C5. For every event name, profile and time, and whatever \<open>JSON.stringify\<close> and
  \<open>fetch\<close> do (return or throw), the promise of \<open>trackEvent\<close> is fulfilled, never
  rejected. A failure of either only adds a \<open>console.error\<close> line after the line that logs
  the record.
\<close>

theorem trackEvent_swallows_failures:
  "fst (trackEvent toISOString stringify fetch now name lp w) = Inr ()
   \<and> console (snd (trackEvent toISOString stringify fetch now name lp w)) =
       console w @ [ConsoleLog (mkEventData toISOString now name lp)] @
         (case (case stringify (mkEventData toISOString now name lp) of
                  Inl e \<Rightarrow> Inl e
                | Inr b \<Rightarrow> fetch (postRequest b)) of
            Inl e \<Rightarrow> [ConsoleError e]
          | Inr status \<Rightarrow> [])"
  by (simp add: trackEvent_never_rejects trackEvent_console)

text \<open>The statement above at a concrete input.\<close>

theorem trackEvent_swallows_failures_witness:
  "fst (trackEvent (\<lambda>t. ''2026-01-01T00:00:00.000Z'') (\<lambda>d. Inl TypeError) (\<lambda>r. Inr 200)
          0 ''click_okta_login'' None \<lparr>console = [], fetched = []\<rparr>) = Inr ()
   \<and> fst (trackEvent (\<lambda>t. ''2026-01-01T00:00:00.000Z'') (\<lambda>d. Inr ''{}'') (\<lambda>r. Inl NetworkError)
          0 ''click_okta_login'' None \<lparr>console = [], fetched = []\<rparr>) = Inr ()
   \<and> console (snd (trackEvent (\<lambda>t. ''2026-01-01T00:00:00.000Z'') (\<lambda>d. Inr ''{}'') (\<lambda>r. Inl NetworkError)
          0 ''click_okta_login'' None \<lparr>console = [], fetched = []\<rparr>)) =
       [ConsoleLog \<lparr>eventName = ''click_okta_login'', eventTimestamp = ''2026-01-01T00:00:00.000Z'',
                    prop1 = ''Unknown'', prop2 = ''N/A'', prop3 = ''Unknown''\<rparr>,
        ConsoleError NetworkError]"
  using trackEvent_swallows_failures [of "\<lambda>t. ''2026-01-01T00:00:00.000Z''" "\<lambda>d. Inl TypeError" "\<lambda>r. Inr 200"
          0 "''click_okta_login''" None "\<lparr>console = [], fetched = []\<rparr>"]
        trackEvent_swallows_failures [of "\<lambda>t. ''2026-01-01T00:00:00.000Z''" "\<lambda>d. Inr ''{}''" "\<lambda>r. Inl NetworkError"
          0 "''click_okta_login''" None "\<lparr>console = [], fetched = []\<rparr>"]
  by (simp add: mkEventData_def optChain_def orElse_def)

text \<open>
  Claim C6. For every event name and every profile, \<open>null\<close> included, the record built has
  the given name as \<open>eventName\<close>, the rendering of the current time as \<open>eventTimestamp\<close>,
  and in \<open>prop1\<close>, \<open>prop2\<close>, \<open>prop3\<close> the display name, picture URL and user id of the
  profile, or \<open>Unknown\<close>, \<open>N/A\<close>, \<open>Unknown\<close> where the field is absent (or empty). The
  construction is a total function, and the record is what \<open>trackEvent\<close> logs first,
  whatever happens to the request.
\<close>

theorem eventData_fields:
  "eventName (mkEventData toISOString now name lp) = name
   \<and> eventTimestamp (mkEventData toISOString now name lp) = toISOString now
   \<and> (lp = None \<longrightarrow>
        mkEventData toISOString now name lp =
          \<lparr>eventName = name, eventTimestamp = toISOString now,
           prop1 = ''Unknown'', prop2 = ''N/A'', prop3 = ''Unknown''\<rparr>)
   \<and> (\<forall>p. lp = Some p \<longrightarrow>
        prop1 (mkEventData toISOString now name lp) =
          (case displayName p of None \<Rightarrow> ''Unknown'' | Some d \<Rightarrow> if d = [] then ''Unknown'' else d)
        \<and> prop2 (mkEventData toISOString now name lp) =
          (case pictureUrl p of None \<Rightarrow> ''N/A'' | Some d \<Rightarrow> if d = [] then ''N/A'' else d)
        \<and> prop3 (mkEventData toISOString now name lp) =
          (case userId p of None \<Rightarrow> ''Unknown'' | Some d \<Rightarrow> if d = [] then ''Unknown'' else d))
   \<and> (\<exists>rest. console (snd (trackEvent toISOString stringify fetch now name lp w)) =
         console w @ ConsoleLog (mkEventData toISOString now name lp) # rest)"
  by (simp add: mkEventData_def optChain_def orElse_def trackEvent_console)

text \<open>The statement above at a concrete input.\<close>

theorem eventData_fields_witness:
  "mkEventData (\<lambda>t. ''2026-01-01T00:00:00.000Z'') 0 ''view_welcome''
     (Some \<lparr>displayName = Some ''LINE User'', pictureUrl = None, userId = Some ''''\<rparr>) =
     \<lparr>eventName = ''view_welcome'', eventTimestamp = ''2026-01-01T00:00:00.000Z'',
      prop1 = ''LINE User'', prop2 = ''N/A'', prop3 = ''Unknown''\<rparr>
   \<and> mkEventData (\<lambda>t. ''2026-01-01T00:00:00.000Z'') 0 ''view_welcome'' None =
     \<lparr>eventName = ''view_welcome'', eventTimestamp = ''2026-01-01T00:00:00.000Z'',
      prop1 = ''Unknown'', prop2 = ''N/A'', prop3 = ''Unknown''\<rparr>"
proof -
  let ?iso = "\<lambda>t::int. ''2026-01-01T00:00:00.000Z''"
  let ?p = "\<lparr>displayName = Some ''LINE User'', pictureUrl = None, userId = Some ''''\<rparr>"
  let ?w = "\<lparr>console = [], fetched = []\<rparr>"
  let ?d = "mkEventData ?iso 0 ''view_welcome'' (Some ?p)"
  from eventData_fields [of ?iso 0 "''view_welcome''" "Some ?p" "\<lambda>d. Inr ''{}''" "\<lambda>r. Inr 200" ?w]
  have "eventName ?d = ''view_welcome'' \<and> eventTimestamp ?d = ''2026-01-01T00:00:00.000Z''
        \<and> prop1 ?d = ''LINE User'' \<and> prop2 ?d = ''N/A'' \<and> prop3 ?d = ''Unknown''"
    by simp
  then have 1: "?d = \<lparr>eventName = ''view_welcome'', eventTimestamp = ''2026-01-01T00:00:00.000Z'',
      prop1 = ''LINE User'', prop2 = ''N/A'', prop3 = ''Unknown''\<rparr>"
    by (cases ?d) simp
  from eventData_fields [of ?iso 0 "''view_welcome''" None "\<lambda>d. Inr ''{}''" "\<lambda>r. Inr 200" ?w]
  have 2: "mkEventData ?iso 0 ''view_welcome'' None =
     \<lparr>eventName = ''view_welcome'', eventTimestamp = ''2026-01-01T00:00:00.000Z'',
      prop1 = ''Unknown'', prop2 = ''N/A'', prop3 = ''Unknown''\<rparr>"
    by simp
  from 1 2 show ?thesis by simp
qed

text \<open>
  Claim C7. Let \<open>s\<close> be a state a screen instance reaches in its life, with the effect run
  \<open>c\<close> pending. After the unmount no listener is left on the element. After the cleanup of
  \<open>c\<close>, whenever it runs, and after a render that changes a dependency, the
  \<open>handleScroll\<close> of \<open>c\<close> is not on the element. If \<open>c\<close> found the element, the removal is
  the first thing the cleanup does, and all that follows is calls of \<open>trackEvent\<close>; if it
  did not, no listener was ever attached.
\<close>

theorem teardown_detaches_listener:
  assumes reach: "s = fst (lifetime tR tE sn lp el evs)" and act: "active s = Some c"
  shows "listeners (fst (step s (Unmount t))) = []
         \<and> c \<notin> set (listeners (fst (cleanup c t s)))
         \<and> (screenName c \<noteq> sn' \<or> lineProfile c \<noteq> lp' \<longrightarrow>
              c \<notin> set (listeners (fst (step s (Render t sn' lp')))))
         \<and> (currentRef c \<longrightarrow>
              (\<exists>rest. snd (cleanup c t s) = RemoveEventListener (effectId c) # rest
                      \<and> (\<forall>a \<in> set rest. isTrackEvent a)))
         \<and> (\<not> currentRef c \<longrightarrow> listeners s = [])"
proof -
  have wf: "wellFormed s" using reach by (simp add: wellFormed_lifetime)
  with act have ls: "listeners s = (if currentRef c then [c] else [])"
    and fresh: "effectId c < nextId s" and cur: "currentRef c = mainRef s"
    by (simp_all add: wellFormed_def)
  have 1: "listeners (fst (step s (Unmount t))) = []"
    unfolding step_Unmount [OF act] using ls by (simp add: cleanup_refs)
  have 2: "c \<notin> set (listeners (fst (cleanup c t s)))"
    using ls by (simp add: cleanup_refs)
  have 3: "c \<notin> set (listeners (fst (step s (Render t sn' lp'))))"
    if "screenName c \<noteq> sn' \<or> lineProfile c \<noteq> lp'"
  proof -
    have e: "listeners (fst (cleanup c t s)) = []" using ls by (simp add: cleanup_refs)
    have "\<forall>x \<in> set (listeners (fst (step s (Render t sn' lp')))). effectId x = nextId s"
      unfolding step_Render [OF act that]
      using e by (simp add: effect_def addEventListener_def Let_def split_def cleanup_refs)
    then show ?thesis using fresh by auto
  qed
  have 4: "\<exists>rest. snd (cleanup c t s) = RemoveEventListener (effectId c) # rest
                      \<and> (\<forall>a \<in> set rest. isTrackEvent a)" if "currentRef c"
  proof -
    have "snd (cleanup c t s) = RemoveEventListener (effectId c) # trackEvents (snd (cleanup c t s))"
      using that cleanup_actions [of c t s] by simp
    moreover have "\<forall>a \<in> set (trackEvents (snd (cleanup c t s))). isTrackEvent a"
      by (simp add: trackEvents_def)
    ultimately show ?thesis by blast
  qed
  have 5: "listeners s = []" if "\<not> currentRef c" using ls that by simp
  from 1 2 3 4 5 show ?thesis by blast
qed

text \<open>The statement above at a concrete input.\<close>

theorem teardown_detaches_listener_witness:
  "active (fst (lifetime 0 1 ''welcome'' None True [])) =
     Some \<lparr>effectId = 0, screenName = ''welcome'', lineProfile = None, currentRef = True\<rparr>
   \<and> listeners (fst (lifetime 0 1 ''welcome'' None True [])) =
     [\<lparr>effectId = 0, screenName = ''welcome'', lineProfile = None, currentRef = True\<rparr>]
   \<and> listeners (fst (step (fst (lifetime 0 1 ''welcome'' None True [])) (Unmount 6000))) = []"
proof -
  let ?s = "fst (lifetime 0 1 ''welcome'' None True [])"
  let ?c = "\<lparr>effectId = 0, screenName = ''welcome'', lineProfile = None, currentRef = True\<rparr>"
  have a: "active ?s = Some ?c" by (simp add: lifetime_fst mount_state)
  have l: "listeners ?s = [?c]" by (simp add: lifetime_fst mount_state)
  from teardown_detaches_listener [OF refl a, of 6000 "''welcome''" None]
  have "listeners (fst (step ?s (Unmount 6000))) = []" by blast
  with a l show ?thesis by blast
qed

text \<open>
  Claim C8. \<open>viewStartTime\<close> is the time of the first render, and no sequence of events
  changes it. A flag that is true stays true through any sequence of events.
  \<open>handleScroll\<close>, and a scroll notification as a whole, change nothing in the state but
  \<open>hasTrackedScroll\<close>. The cleanup and the unmount leave \<open>viewStartTime\<close> and
  \<open>hasTrackedScroll\<close> as they are, and the cleanup leaves \<open>hasTrackedViewDuration\<close> true.
  A run of the effect changes none of the three refs.
\<close>

theorem tracker_state_frame:
  "viewStartTime (fst (mount tR tE sn lp el)) = tR
   \<and> viewStartTime (fst (run s evs)) = viewStartTime s
   \<and> (hasTrackedScroll s \<longrightarrow> hasTrackedScroll (fst (run s evs)))
   \<and> (hasTrackedViewDuration s \<longrightarrow> hasTrackedViewDuration (fst (run s evs)))
   \<and> fst (handleScroll c t v s) = s\<lparr>hasTrackedScroll := hasTrackedScroll (fst (handleScroll c t v s))\<rparr>
   \<and> fst (step s (Scroll t v)) = s\<lparr>hasTrackedScroll := hasTrackedScroll (fst (step s (Scroll t v)))\<rparr>
   \<and> viewStartTime (fst (cleanup c t s)) = viewStartTime s
   \<and> hasTrackedScroll (fst (cleanup c t s)) = hasTrackedScroll s
   \<and> hasTrackedViewDuration (fst (cleanup c t s))
   \<and> viewStartTime (fst (step s (Unmount t))) = viewStartTime s
   \<and> hasTrackedScroll (fst (step s (Unmount t))) = hasTrackedScroll s
   \<and> viewStartTime (fst (effect t sn lp s)) = viewStartTime s
   \<and> hasTrackedScroll (fst (effect t sn lp s)) = hasTrackedScroll s
   \<and> hasTrackedViewDuration (fst (effect t sn lp s)) = hasTrackedViewDuration s"
proof -
  have u: "hasTrackedScroll (fst (step s (Unmount t))) = hasTrackedScroll s"
    by (simp add: split_def Let_def cleanup_refs split: option.splits)
  have d: "fst (step s (Scroll t v)) = s\<lparr>hasTrackedScroll := hasTrackedScroll (fst (step s (Scroll t v)))\<rparr>"
    using dispatchScroll_flag_only [of "listeners s" t v s] by simp
  have h: "fst (handleScroll c t v s) = s\<lparr>hasTrackedScroll := hasTrackedScroll (fst (handleScroll c t v s))\<rparr>"
    by (rule handleScroll_flag_only)
  show ?thesis
    using u d h
    by (simp add: mount_refs run_viewStartTime run_scroll_mono run_duration_mono step_viewStartTime
          cleanup_refs effect_refs del: step.simps)
qed

text \<open>The statement above at a concrete input.\<close>

theorem tracker_state_frame_witness:
  "viewStartTime (fst (lifetime 0 1 ''welcome'' None True
      [Scroll 1000 \<lparr>scrollTop = 400, scrollHeight = 1000, clientHeight = 500\<rparr>, Unmount 6000])) = 0
   \<and> hasTrackedScroll (fst (run (fst (lifetime 0 1 ''welcome'' None True
      [Scroll 1000 \<lparr>scrollTop = 400, scrollHeight = 1000, clientHeight = 500\<rparr>])) [Unmount 6000]))"
proof -
  let ?v = "\<lparr>scrollTop = 400, scrollHeight = 1000, clientHeight = 500\<rparr>"
  let ?m = "fst (mount 0 1 ''welcome'' None True)"
  let ?s = "fst (lifetime 0 1 ''welcome'' None True [Scroll 1000 ?v])"
  have f: "hasTrackedScroll ?s"
    by (simp add: lifetime_fst mount_state handleScroll_def scrollPercent_examples)
  from tracker_state_frame [of 0 1 "''welcome''" None True ?m "[Scroll 1000 ?v, Unmount 6000]"]
  have 1: "viewStartTime (fst (lifetime 0 1 ''welcome'' None True [Scroll 1000 ?v, Unmount 6000])) = 0"
    by (simp add: lifetime_fst del: run.simps)
  from tracker_state_frame [of 0 1 "''welcome''" None True ?s "[Unmount 6000]"] f
  have 2: "hasTrackedScroll (fst (run ?s [Unmount 6000]))" by blast
  from 1 2 show ?thesis by blast
qed

text \<open>
  Claim C9. A screen instance mounted with a \<open>null\<close> profile, scrolled beyond 70 percent of
  a positive range and unmounted more than five seconds after its first render calls
  \<open>trackEvent\<close> for the scroll-depth event and for the duration event, both with the
  \<open>null\<close> profile, and the records built for them carry \<open>Unknown\<close>, \<open>N/A\<close>, \<open>Unknown\<close>. The
  mount itself calls \<open>trackEvent\<close> for nothing: the view event is the guarded one.
\<close>

theorem null_profile_scroll_and_duration:
  assumes "clientHeight v < scrollHeight v" and "scrollPercent v > 70"
    and "real_of_int (t' - tR) / 1000 > 5"
  shows "snd (lifetime tR tE sn None True [Scroll t v, Unmount t']) =
           [AddEventListener 0,
            TrackEvent t (''scroll_depth_over_70%_on_'' @ sn) None,
            RemoveEventListener 0,
            TrackEvent t' (''view_duration_over_5s_on_'' @ sn) None]
         \<and> mkEventData toISOString t (''scroll_depth_over_70%_on_'' @ sn) None =
             \<lparr>eventName = ''scroll_depth_over_70%_on_'' @ sn, eventTimestamp = toISOString t,
              prop1 = ''Unknown'', prop2 = ''N/A'', prop3 = ''Unknown''\<rparr>
         \<and> mkEventData toISOString t' (''view_duration_over_5s_on_'' @ sn) None =
             \<lparr>eventName = ''view_duration_over_5s_on_'' @ sn, eventTimestamp = toISOString t',
              prop1 = ''Unknown'', prop2 = ''N/A'', prop3 = ''Unknown''\<rparr>
         \<and> trackEvents (snd (mount tR tE sn None True)) = []"
  using assms
  by (simp add: lifetime_snd mount_state mount_actions handleScroll_def cleanup_def duration_def
        removeEventListener_def mkEventData_def optChain_def orElse_def trackEvents_def
        scrollName_def durationName_def Let_def split_def)

text \<open>The statement above at a concrete input.\<close>

theorem null_profile_scroll_and_duration_witness:
  "clientHeight \<lparr>scrollTop = 400, scrollHeight = 1000, clientHeight = 500\<rparr>
     < scrollHeight \<lparr>scrollTop = 400, scrollHeight = 1000, clientHeight = 500\<rparr>
   \<and> snd (lifetime 0 1 ''otp_screen'' None True
        [Scroll 3000 \<lparr>scrollTop = 400, scrollHeight = 1000, clientHeight = 500\<rparr>, Unmount 6000]) =
      [AddEventListener 0, TrackEvent 3000 ''scroll_depth_over_70%_on_otp_screen'' None,
       RemoveEventListener 0, TrackEvent 6000 ''view_duration_over_5s_on_otp_screen'' None]
   \<and> mkEventData (\<lambda>t. ''2026-01-01T00:00:06.000Z'') 6000 ''view_duration_over_5s_on_otp_screen'' None =
      \<lparr>eventName = ''view_duration_over_5s_on_otp_screen'',
       eventTimestamp = ''2026-01-01T00:00:06.000Z'',
       prop1 = ''Unknown'', prop2 = ''N/A'', prop3 = ''Unknown''\<rparr>"
proof -
  let ?v = "\<lparr>scrollTop = 400, scrollHeight = 1000, clientHeight = 500\<rparr>"
  have 1: "clientHeight ?v < scrollHeight ?v" by simp
  have 2: "scrollPercent ?v > 70" by (simp add: scrollPercent_examples)
  have 3: "real_of_int (6000 - 0) / 1000 > 5" by simp
  from null_profile_scroll_and_duration
         [OF 1 2 3, of 1 "''otp_screen''" 3000 "\<lambda>t. ''2026-01-01T00:00:06.000Z''"] 1
  show ?thesis by simp
qed

text \<open>
  Claim C10. A screen instance is mounted on its element with a \<open>null\<close> profile at time
  \<open>tR\<close> and scrolled; at time \<open>t\<close> a render brings the profile \<open>p\<close>. That render removes the
  listener, emits the duration event (with the \<open>null\<close> profile of the old effect run) if
  \<open>(t - tR) / 1000 > 5\<close>, emits the view event with \<open>p\<close> and attaches a new listener, in this
  order; \<open>hasTrackedViewDuration\<close> is then true. After more scrolling, the unmount, at
  whatever time, only removes the new listener: it emits no duration event.
\<close>

theorem profile_arrival_reruns_effect:
  "let (s1, a1) = lifetime tR tE sn None True (scrolls tvs1);
       (s2, a2) = step s1 (Render t sn (Some p));
       (s3, a3) = run s2 (scrolls tvs2);
       (s4, a4) = step s3 (Unmount t')
   in a2 = [RemoveEventListener 0]
             @ (if real_of_int (t - tR) / 1000 > 5 then [TrackEvent t (''view_duration_over_5s_on_'' @ sn) None] else [])
             @ [TrackEvent t (''view_'' @ sn) (Some p), AddEventListener 1]
      \<and> hasTrackedViewDuration s2
      \<and> listeners s2 = [\<lparr>effectId = 1, screenName = sn, lineProfile = Some p, currentRef = True\<rparr>]
      \<and> a4 = [RemoveEventListener 1]
      \<and> listeners s4 = []"
proof -
  let ?m = "fst (mount tR tE sn None True)"
  let ?c0 = "\<lparr>effectId = 0, screenName = sn, lineProfile = None, currentRef = True\<rparr>"
  let ?c1 = "\<lparr>effectId = 1, screenName = sn, lineProfile = Some p, currentRef = True\<rparr>"
  define s1 where "s1 = fst (lifetime tR tE sn None True (scrolls tvs1))"
  define s2 where "s2 = fst (step s1 (Render t sn (Some p)))"
  define a2 where "a2 = snd (step s1 (Render t sn (Some p)))"
  define s3 where "s3 = fst (run s2 (scrolls tvs2))"
  have s1: "s1 = ?m\<lparr>hasTrackedScroll := hasTrackedScroll s1\<rparr>"
    unfolding s1_def lifetime_fst by (rule run_scrolls_flag_only)
  have act1: "active s1 = Some ?c0" by (subst s1) (simp add: mount_state)
  have r: "step s1 (Render t sn (Some p)) =
     (fst (effect t sn (Some p) (fst (cleanup ?c0 t s1))),
      snd (cleanup ?c0 t s1) @ snd (effect t sn (Some p) (fst (cleanup ?c0 t s1))))"
    by (rule step_Render [OF act1]) simp
  have k: "cleanup ?c0 t s1 =
     (s1\<lparr>listeners := [], hasTrackedViewDuration := True\<rparr>,
      [RemoveEventListener 0] @
      (if real_of_int (t - tR) / 1000 > 5 then [TrackEvent t (durationName sn) None] else []))"
    by (subst (1 2) s1)
       (simp add: mount_state cleanup_def removeEventListener_def duration_def Let_def)
  have e: "effect t sn (Some p) (s1\<lparr>listeners := [], hasTrackedViewDuration := True\<rparr>) =
     (s1\<lparr>listeners := [?c1], hasTrackedViewDuration := True, active := Some ?c1, nextId := 2\<rparr>,
      [TrackEvent t (viewName sn) (Some p), AddEventListener 1])"
    by (subst (1 2) s1) (simp add: mount_state effect_def addEventListener_def Let_def)
  have s2: "s2 = s1\<lparr>listeners := [?c1], hasTrackedViewDuration := True, active := Some ?c1, nextId := 2\<rparr>"
    unfolding s2_def r by (simp add: k e)
  have a2: "a2 = [RemoveEventListener 0]
             @ (if real_of_int (t - tR) / 1000 > 5 then [TrackEvent t (durationName sn) None] else [])
             @ [TrackEvent t (viewName sn) (Some p), AddEventListener 1]"
    unfolding a2_def r by (simp add: k e)
  have act3: "active s3 = Some ?c1" and ls3: "listeners s3 = [?c1]" and d3: "hasTrackedViewDuration s3"
    unfolding s3_def by (simp_all add: run_scrolls_refs s2)
  have u: "step s3 (Unmount t') =
     ((fst (cleanup ?c1 t' (s3\<lparr>mainRef := False\<rparr>)))\<lparr>active := None\<rparr>,
      snd (cleanup ?c1 t' (s3\<lparr>mainRef := False\<rparr>)))"
    by (rule step_Unmount [OF act3])
  have a4: "snd (step s3 (Unmount t')) = [RemoveEventListener 1]"
    unfolding u using d3 by (simp add: cleanup_def Let_def)
  have l4: "listeners (fst (step s3 (Unmount t'))) = []"
    unfolding u using ls3 by (simp add: cleanup_refs)
  have "a2 = [RemoveEventListener 0]
             @ (if real_of_int (t - tR) / 1000 > 5 then [TrackEvent t (durationName sn) None] else [])
             @ [TrackEvent t (viewName sn) (Some p), AddEventListener 1]
      \<and> hasTrackedViewDuration s2
      \<and> listeners s2 = [?c1]
      \<and> snd (step s3 (Unmount t')) = [RemoveEventListener 1]
      \<and> listeners (fst (step s3 (Unmount t'))) = []"
    using a2 a4 l4 by (simp add: s2)
  then show ?thesis
    unfolding s1_def s2_def a2_def s3_def
    by (simp add: split_def Let_def viewName_def durationName_def del: step.simps)
qed

text \<open>The statement above at a concrete input.\<close>

theorem profile_arrival_reruns_effect_witness:
  "snd (step (fst (lifetime 0 1 ''welcome'' None True (scrolls [])))
          (Render 100 ''welcome'' (Some \<lparr>displayName = Some ''LINE User'', pictureUrl = None, userId = None\<rparr>))) =
     [RemoveEventListener 0,
      TrackEvent 100 ''view_welcome''
        (Some \<lparr>displayName = Some ''LINE User'', pictureUrl = None, userId = None\<rparr>),
      AddEventListener 1]
   \<and> snd (step (fst (run (fst (step (fst (lifetime 0 1 ''welcome'' None True (scrolls [])))
          (Render 100 ''welcome'' (Some \<lparr>displayName = Some ''LINE User'', pictureUrl = None, userId = None\<rparr>))))
          (scrolls []))) (Unmount 10000)) =
     [RemoveEventListener 1]"
  using profile_arrival_reruns_effect [of 0 1 "''welcome''" "[]" 100
          "\<lparr>displayName = Some ''LINE User'', pictureUrl = None, userId = None\<rparr>" "[]" 10000]
  by (simp add: split_def Let_def del: step.simps run.simps)

end
